theory Spec2Isabelle
  imports Complex_Main "HOL-Library.Sublist"
begin

section \<open>The HiGHS adapter of Python-MIP (\<^verbatim>\<open>mip/highs.py\<close>)\<close>

text \<open>
  The adapter \<^verbatim>\<open>SolverHighs\<close> forwards the calls of the modelling front end to the
  native HiGHS library and keeps the names of columns and rows itself. The theory
  follows the file top-down: numbers and their conversion at the foreign-function
  boundary, the front end's constants and expressions, the native model behind the
  opaque handle, the library resolver, and the adapter's methods.
\<close>

subsection \<open>Exceptions\<close>

datatype error =
    FileNotFoundError string
  | NotImplementedError
  | AssertionError
  | KeyError
  | IndexError
  | ValueError
  | ImportError
  | OSError
  | OverflowError
  | NameError

subsection \<open>Numbers\<close>

text \<open>
  A C double is a finite value, one of the two infinities, or NaN. A finite double is
  given by its value; the sign of zero is not represented.
\<close>

datatype double = NaN | NegInf | Fin real | PosInf

fun dneg :: "double \<Rightarrow> double" where
  "dneg NaN = NaN"
| "dneg NegInf = PosInf"
| "dneg (Fin x) = Fin (- x)"
| "dneg PosInf = NegInf"

text \<open>
  The sum of two finite doubles is given without rounding; the adapter only ever adds
  to the constant zero, where the sum is exact.
\<close>

fun dadd :: "double \<Rightarrow> double \<Rightarrow> double" where
  "dadd (Fin x) (Fin y) = Fin (x + y)"
| "dadd NaN _ = NaN"
| "dadd _ NaN = NaN"
| "dadd PosInf NegInf = NaN"
| "dadd NegInf PosInf = NaN"
| "dadd PosInf _ = PosInf"
| "dadd _ PosInf = PosInf"
| "dadd NegInf _ = NegInf"
| "dadd _ NegInf = NegInf"

text \<open>
  The numbers a caller passes are Python numbers: an \<^verbatim>\<open>int\<close> of any size, or a
  \<^verbatim>\<open>float\<close>, which is a double already and is passed on as it is. Unary minus
  keeps the kind.
\<close>

datatype pynum = PyInt int | PyFloat double

fun py_neg :: "pynum \<Rightarrow> pynum" where
  "py_neg (PyInt n) = PyInt (- n)"
| "py_neg (PyFloat d) = PyFloat (dneg d)"

text \<open>
  Where a Python number is passed for a C \<^verbatim>\<open>double\<close>, an \<^verbatim>\<open>int\<close> is converted as
  \<^verbatim>\<open>float(n)\<close> does: rounded to the nearest value with 53 significant bits, ties to
  the even one, and \<^verbatim>\<open>OverflowError\<close> when the rounded value would be \<open>2 ^ 1024\<close>
  or more, that is from \<open>2 ^ 1024 - 2 ^ 970\<close> on.
\<close>

fun bit_length :: "nat \<Rightarrow> nat" where
  "bit_length n = (if n = 0 then 0 else Suc (bit_length (n div 2)))"

declare bit_length.simps [simp del]

definition round_to_double :: "nat \<Rightarrow> nat" where
  "round_to_double m =
     (if bit_length m \<le> 53 then m
      else
        (let e = bit_length m - 53;
             q = m div 2 ^ e;
             r = m mod 2 ^ e;
             half = 2 ^ (e - 1)
         in (if half < r \<or> (r = half \<and> odd q) then q + 1 else q) * 2 ^ e))"

definition int_to_double :: "int \<Rightarrow> error + double" where
  "int_to_double n =
     (if 2 ^ 1024 - 2 ^ 970 \<le> \<bar>n\<bar> then Inl OverflowError
      else Inr (Fin (if n < 0 then - real (round_to_double (nat \<bar>n\<bar>))
                     else real (round_to_double (nat \<bar>n\<bar>)))))"

definition to_double :: "pynum \<Rightarrow> error + double" where
  "to_double x = (case x of PyInt n \<Rightarrow> int_to_double n | PyFloat d \<Rightarrow> Inr d)"

text \<open>
  Where a Python \<^verbatim>\<open>int\<close> is passed for a C \<^verbatim>\<open>int\<close> (\<^verbatim>\<open>HighsInt\<close>, 32 bits), a
  value outside the range raises \<^verbatim>\<open>OverflowError\<close>.
\<close>

definition to_c_int :: "int \<Rightarrow> error + int" where
  "to_c_int i = (if - (2 ^ 31) \<le> i \<and> i < 2 ^ 31 then Inr i else Inl OverflowError)"

text \<open>
  \<^verbatim>\<open>ffi.new("int[]", \<dots>)\<close> and \<^verbatim>\<open>ffi.new("double[]", \<dots>)\<close> convert the items in
  order and raise at the first one that does not fit.
\<close>

fun ffi_new_int :: "int list \<Rightarrow> error + int list" where
  "ffi_new_int [] = Inr []"
| "ffi_new_int (i # rest) =
     (case to_c_int i of
        Inl err \<Rightarrow> Inl err
      | Inr c \<Rightarrow> (case ffi_new_int rest of Inl err \<Rightarrow> Inl err | Inr cs \<Rightarrow> Inr (c # cs)))"

fun ffi_new_double :: "pynum list \<Rightarrow> error + double list" where
  "ffi_new_double [] = Inr []"
| "ffi_new_double (x # rest) =
     (case to_double x of
        Inl err \<Rightarrow> Inl err
      | Inr d \<Rightarrow> (case ffi_new_double rest of Inl err \<Rightarrow> Inl err | Inr ds \<Rightarrow> Inr (d # ds)))"

subsection \<open>Constants of the front end\<close>

text \<open>
  Modelled from the spec: the module \<^verbatim>\<open>mip.constants\<close> is not part of the source at
  hand; the adapter only compares these strings and uses them as dictionary keys, so
  the development depends on their being pairwise distinct within each group.
  \<^verbatim>\<open>mip.INF\<close> is \<^verbatim>\<open>float("inf")\<close>.
\<close>

definition mip_INF :: pynum where "mip_INF = PyFloat PosInf"

definition MINIMIZE :: string where "MINIMIZE = ''MIN''"
definition MAXIMIZE :: string where "MAXIMIZE = ''MAX''"

definition CONTINUOUS :: string where "CONTINUOUS = ''C''"
definition BINARY :: string where "BINARY = ''B''"
definition INTEGER :: string where "INTEGER = ''I''"

definition EQUAL :: string where "EQUAL = ''=''"
definition LESS_OR_EQUAL :: string where "LESS_OR_EQUAL = ''<''"
definition GREATER_OR_EQUAL :: string where "GREATER_OR_EQUAL = ''>''"

subsection \<open>Variables and linear expressions\<close>

text \<open>
  A variable object of the front end is identified by its column index, a Python
  \<^verbatim>\<open>int\<close>. A linear expression holds a dictionary from variables to coefficients
  (kept in insertion order, as Python iterates it), a constant and a sense string.
\<close>

datatype var = Var (idx: int)

record lin_expr =
  expr :: "(var \<times> pynum) list"
  const :: pynum
  sense :: string

subsection \<open>The native model\<close>

text \<open>
  Modelled from the spec: the HiGHS library itself is a pre-built binary outside the
  source; the file only declares its C signatures (\<^verbatim>\<open>HEADER\<close>). The model behind the
  opaque handle is a list of columns, a list of rows, the objective offset and the
  objective sense. Every call returns a status (0 for success, -1 for an error) next to
  the model; a call that fails leaves the model as it was. The adapter discards every
  status.
\<close>

definition kHighsObjSenseMinimize :: int where "kHighsObjSenseMinimize = 1"
definition kHighsObjSenseMaximize :: int where "kHighsObjSenseMaximize = - 1"
definition kHighsVarTypeContinuous :: int where "kHighsVarTypeContinuous = 0"
definition kHighsVarTypeInteger :: int where "kHighsVarTypeInteger = 1"

record column =
  col_lower :: double
  col_upper :: double
  col_cost :: double
  col_integrality :: int

record row =
  row_lower :: double
  row_upper :: double
  row_index :: "int list"
  row_value :: "double list"

record highs =
  cols :: "column list"
  rows :: "row list"
  obj_offset :: double
  obj_sense :: int

text \<open>
  Which columns and rows the library accepts (its limits on bounds, indices and
  coefficients) is not fixed by anything in the source. It is a parameter: the loaded
  library carries the two tests, and \<^verbatim>\<open>Highs_addVar\<close> and \<^verbatim>\<open>Highs_addRow\<close> add
  nothing and return the error status when the test refuses.
\<close>

record highslib =
  addVar_accepts :: "highs \<Rightarrow> double \<Rightarrow> double \<Rightarrow> bool"
  addRow_accepts :: "highs \<Rightarrow> double \<Rightarrow> double \<Rightarrow> int \<Rightarrow> int list \<Rightarrow> double list \<Rightarrow> bool"

definition Highs_create :: highs where
  "Highs_create =
     \<lparr>cols = [], rows = [], obj_offset = Fin 0, obj_sense = kHighsObjSenseMinimize\<rparr>"

definition Highs_getNumCol :: "highs \<Rightarrow> int" where
  "Highs_getNumCol h = int (length (cols h))"

definition Highs_getNumRow :: "highs \<Rightarrow> int" where
  "Highs_getNumRow h = int (length (rows h))"

definition Highs_addVar :: "highslib \<Rightarrow> highs \<Rightarrow> double \<Rightarrow> double \<Rightarrow> int \<times> highs" where
  "Highs_addVar lib h lower upper =
     (if addVar_accepts lib h lower upper
      then (0, h\<lparr>cols := cols h @
                  [\<lparr>col_lower = lower, col_upper = upper, col_cost = Fin 0,
                    col_integrality = kHighsVarTypeContinuous\<rparr>]\<rparr>)
      else (- 1, h))"

definition Highs_addRow ::
  "highslib \<Rightarrow> highs \<Rightarrow> double \<Rightarrow> double \<Rightarrow> int \<Rightarrow> int list \<Rightarrow> double list \<Rightarrow> int \<times> highs" where
  "Highs_addRow lib h lower upper num_new_nz index value =
     (if addRow_accepts lib h lower upper num_new_nz index value
      then (0, h\<lparr>rows := rows h @
                  [\<lparr>row_lower = lower, row_upper = upper,
                    row_index = take (nat num_new_nz) index,
                    row_value = take (nat num_new_nz) value\<rparr>]\<rparr>)
      else (- 1, h))"

definition Highs_changeColCost :: "highs \<Rightarrow> int \<Rightarrow> double \<Rightarrow> int \<times> highs" where
  "Highs_changeColCost h col cost =
     (if 0 \<le> col \<and> col < Highs_getNumCol h
      then (0, h\<lparr>cols := (cols h)[nat col := (cols h ! nat col)\<lparr>col_cost := cost\<rparr>]\<rparr>)
      else (- 1, h))"

definition Highs_changeColIntegrality :: "highs \<Rightarrow> int \<Rightarrow> int \<Rightarrow> int \<times> highs" where
  "Highs_changeColIntegrality h col integrality =
     (if 0 \<le> col \<and> col < Highs_getNumCol h
      then (0, h\<lparr>cols :=
                  (cols h)[nat col := (cols h ! nat col)\<lparr>col_integrality := integrality\<rparr>]\<rparr>)
      else (- 1, h))"

definition Highs_changeColsIntegralityByRange ::
  "highs \<Rightarrow> int \<Rightarrow> int \<Rightarrow> int list \<Rightarrow> int \<times> highs" where
  "Highs_changeColsIntegralityByRange h from_col to_col integrality =
     (if 0 \<le> from_col \<and> from_col \<le> to_col \<and> to_col < Highs_getNumCol h
      then (0, h\<lparr>cols :=
                  map (\<lambda>(k, c).
                         if from_col \<le> int k \<and> int k \<le> to_col
                         then c\<lparr>col_integrality := integrality ! nat (int k - from_col)\<rparr>
                         else c)
                      (enumerate 0 (cols h))\<rparr>)
      else (- 1, h))"

definition Highs_changeObjectiveOffset :: "highs \<Rightarrow> double \<Rightarrow> int \<times> highs" where
  "Highs_changeObjectiveOffset h off = (0, h\<lparr>obj_offset := off\<rparr>)"

definition Highs_changeObjectiveSense :: "highs \<Rightarrow> int \<Rightarrow> int \<times> highs" where
  "Highs_changeObjectiveSense h s =
     (if s = kHighsObjSenseMinimize \<or> s = kHighsObjSenseMaximize
      then (0, h\<lparr>obj_sense := s\<rparr>)
      else (- 1, h))"

definition Highs_getObjectiveOffset :: "highs \<Rightarrow> int \<times> double" where
  "Highs_getObjectiveOffset h = (0, obj_offset h)"

definition Highs_getObjectiveSense :: "highs \<Rightarrow> int \<times> int" where
  "Highs_getObjectiveSense h = (0, obj_sense h)"

text \<open>
  \<^verbatim>\<open>Highs_getColsByRange\<close> fills the caller's cost buffer for the columns
  \<^verbatim>\<open>from_col .. to_col\<close>; on an invalid range the buffer stays as the caller
  allocated it. Only the costs are read by the adapter.
\<close>

definition Highs_getColsByRange ::
  "highs \<Rightarrow> int \<Rightarrow> int \<Rightarrow> double list \<Rightarrow> int \<times> double list" where
  "Highs_getColsByRange h from_col to_col costs =
     (if 0 \<le> from_col \<and> from_col \<le> to_col \<and> to_col < Highs_getNumCol h
      then (0, map col_cost (take (nat (to_col - from_col + 1)) (drop (nat from_col) (cols h)))
               @ drop (nat (to_col - from_col + 1)) costs)
      else (- 1, costs))"

subsection \<open>The library resolver\<close>

text \<open>
  What the module reads from its surroundings when it is imported: the process
  environment, the location of the \<^verbatim>\<open>highspy\<close> package (\<open>None\<close> when its import
  fails), the platform string, the file system as seen by \<^verbatim>\<open>glob.glob\<close>, whether
  \<^verbatim>\<open>ffi.dlopen\<close> can load a given file, and the library a loadable file holds.
\<close>

record environment =
  environ :: "string \<rightharpoonup> string"
  highspy_file :: "string option"
  platform :: string
  glob_fs :: "string \<Rightarrow> string list"
  dlopen_ok :: "string \<Rightarrow> bool"
  library_at :: "string \<Rightarrow> highslib"

definition ENV_KEY :: string where "ENV_KEY = ''PMIP_HIGHS_LIBRARY''"

definition lower_char :: "char \<Rightarrow> char" where
  "lower_char c =
     (let n = (of_char c :: nat) in if 65 \<le> n \<and> n \<le> 90 then char_of (n + 32) else c)"

definition str_lower :: "string \<Rightarrow> string" where
  "str_lower s = map lower_char s"

fun str_contains :: "string \<Rightarrow> string \<Rightarrow> bool" where
  "str_contains sub [] = (sub = [])"
| "str_contains sub (c # cs) = (prefix sub (c # cs) \<or> str_contains sub cs)"

definition dirname :: "string \<Rightarrow> string" where
  "dirname p =
     (let head = rev (dropWhile (\<lambda>c. c \<noteq> CHR ''/'') (rev p))
      in if head \<noteq> [] \<and> head \<noteq> replicate (length head) CHR ''/''
         then rev (dropWhile (\<lambda>c. c = CHR ''/'') (rev head))
         else head)"

definition path_join :: "string \<Rightarrow> string \<Rightarrow> string" where
  "path_join a b =
     (if prefix ''/'' b then b
      else if a = [] \<or> suffix ''/'' a then a @ b
      else a @ ''/'' @ b)"

definition dlopen :: "environment \<Rightarrow> string \<Rightarrow> error + string" where
  "dlopen env libfile = (if dlopen_ok env libfile then Inr libfile else Inl OSError)"

text \<open>The body of the \<^verbatim>\<open>try\<close> block: the file that was loaded, or the exception raised.\<close>

definition load_library :: "environment \<Rightarrow> error + string" where
  "load_library env =
     (case environ env ENV_KEY of
        Some libfile \<Rightarrow> dlopen env libfile
      | None \<Rightarrow>
          (case highspy_file env of
             None \<Rightarrow> Inl ImportError
           | Some file \<Rightarrow>
               (let pkg_path = dirname file
                in if str_contains ''linux'' (str_lower (platform env))
                   then (case glob_fs env (path_join pkg_path ''highs_bindings.*.so'') of
                           [libfile] \<Rightarrow> dlopen env libfile
                         | _ \<Rightarrow> Inl ValueError)
                   else Inl NotImplementedError)))"

text \<open>
  Every exception of the block is caught by \<^verbatim>\<open>except Exception\<close>, so importing the
  module always completes and leaves the flag \<^verbatim>\<open>has_highs\<close>.
\<close>

definition has_highs :: "environment \<Rightarrow> bool" where
  "has_highs env = (case load_library env of Inl e \<Rightarrow> False | Inr lib \<Rightarrow> True)"

text \<open>The global \<^verbatim>\<open>highslib\<close>: bound only when loading succeeded.\<close>

definition highslib :: "environment \<Rightarrow> highslib option" where
  "highslib env =
     (case load_library env of Inl e \<Rightarrow> None | Inr libfile \<Rightarrow> Some (library_at env libfile))"

subsection \<open>The adapter\<close>

text \<open>
  The fields of \<^verbatim>\<open>SolverHighs\<close>: \<^verbatim>\<open>_lib\<close>, \<^verbatim>\<open>_model\<close>, \<^verbatim>\<open>_name\<close>,
  \<^verbatim>\<open>_var_name\<close>, \<^verbatim>\<open>_var_col\<close>, \<^verbatim>\<open>_cons_name\<close>, \<^verbatim>\<open>_cons_col\<close>. A method that
  mutates the adapter returns the exception it raised, if any, together with the adapter
  as the call left it; a method that only reads returns its value or the exception.
\<close>

record adapter =
  s_lib :: highslib
  s_model :: highs
  s_name :: string
  s_var_name :: "string list"
  s_var_col :: "string \<rightharpoonup> int"
  s_cons_name :: "string list"
  s_cons_col :: "string \<rightharpoonup> int"

definition num_cols :: "adapter \<Rightarrow> int" where
  "num_cols self = Highs_getNumCol (s_model self)"

definition num_rows :: "adapter \<Rightarrow> int" where
  "num_rows self = Highs_getNumRow (s_model self)"

definition sense_map_get :: "int \<rightharpoonup> string" where
  "sense_map_get =
     [kHighsObjSenseMaximize \<mapsto> MAXIMIZE, kHighsObjSenseMinimize \<mapsto> MINIMIZE]"

definition sense_map_set :: "string \<rightharpoonup> int" where
  "sense_map_set =
     [MAXIMIZE \<mapsto> kHighsObjSenseMaximize, MINIMIZE \<mapsto> kHighsObjSenseMinimize]"

definition get_objective_sense :: "adapter \<Rightarrow> error + string" where
  "get_objective_sense self =
     (case sense_map_get (snd (Highs_getObjectiveSense (s_model self))) of
        None \<Rightarrow> Inl KeyError
      | Some s \<Rightarrow> Inr s)"

definition set_objective_sense :: "adapter \<Rightarrow> string \<Rightarrow> error option \<times> adapter" where
  "set_objective_sense self sense' =
     (case sense_map_set sense' of
        None \<Rightarrow> (Some KeyError, self)
      | Some s \<Rightarrow>
          (None, self\<lparr>s_model := snd (Highs_changeObjectiveSense (s_model self) s)\<rparr>))"

definition not_found_message :: string where
  "not_found_message =
     ''HiGHS not found.'' @
     ''Please install the `highspy` package, or'' @
     ''set the `PMIP_HIGHS_LIBRARY` environment variable.''"

text \<open>
  \<^verbatim>\<open>__init__\<close>: the front end's model object is only stored by the base class and
  plays no part here. The registries are assigned after the objective sense is set, so
  an exception of \<^verbatim>\<open>set_objective_sense\<close> ends the construction.
\<close>

definition SolverHighs_init :: "environment \<Rightarrow> string \<Rightarrow> string \<Rightarrow> error + adapter" where
  "SolverHighs_init env name sense' =
     (if \<not> has_highs env then Inl (FileNotFoundError not_found_message)
      else
        (case highslib env of
           None \<Rightarrow> Inl NameError
         | Some lib \<Rightarrow>
             (case set_objective_sense
                     \<lparr>s_lib = lib, s_model = Highs_create, s_name = [], s_var_name = [],
                       s_var_col = Map.empty, s_cons_name = [], s_cons_col = Map.empty\<rparr>
                     sense' of
                (Some e, self) \<Rightarrow> Inl e
              | (None, self) \<Rightarrow>
                  Inr (self\<lparr>s_name := name, s_var_name := [], s_var_col := Map.empty,
                            s_cons_name := [], s_cons_col := Map.empty\<rparr>))))"

text \<open>
  \<^verbatim>\<open>add_var\<close>: the parameter \<^verbatim>\<open>column\<close> is ignored by the source and left out. The
  bounds are converted at the call of \<^verbatim>\<open>Highs_addVar\<close> and the cost at the call of
  \<^verbatim>\<open>Highs_changeColCost\<close>, so a cost that does not convert raises after the column
  was added and before the name is stored.
\<close>

definition add_var ::
  "adapter \<Rightarrow> pynum \<Rightarrow> pynum \<Rightarrow> pynum \<Rightarrow> string \<Rightarrow> string \<Rightarrow> error option \<times> adapter" where
  "add_var self obj lb ub var_type name =
     (let col = num_cols self
      in case to_double lb of
           Inl err \<Rightarrow> (Some err, self)
         | Inr lower \<Rightarrow>
             (case to_double ub of
                Inl err \<Rightarrow> (Some err, self)
              | Inr upper \<Rightarrow>
                  (let m1 = snd (Highs_addVar (s_lib self) (s_model self) lower upper)
                   in case to_double obj of
                        Inl err \<Rightarrow> (Some err, self\<lparr>s_model := m1\<rparr>)
                      | Inr cost \<Rightarrow>
                          (let m2 = snd (Highs_changeColCost m1 col cost);
                               m3 = (if var_type \<noteq> CONTINUOUS
                                     then snd (Highs_changeColIntegrality m2 col
                                                 kHighsVarTypeInteger)
                                     else m2)
                           in (None, self\<lparr>s_model := m3,
                                          s_var_name := s_var_name self @ [name],
                                          s_var_col := (s_var_col self)(name \<mapsto> col)\<rparr>)))))"

text \<open>
  The first part of \<^verbatim>\<open>add_constr\<close>, up to the native call: the arguments of
  \<^verbatim>\<open>Highs_addRow\<close> as they are marshalled (lower bound, upper bound, number of
  entries, indices, values), or the exception raised before the call is made.
\<close>

definition add_row_arguments ::
  "lin_expr \<Rightarrow> error + (double \<times> double \<times> int \<times> int list \<times> double list)" where
  "add_row_arguments e =
     (let lower = py_neg (const e);
          upper = py_neg (const e);
          bounds =
            (if sense e = LESS_OR_EQUAL then Inr (py_neg mip_INF, upper)
             else if sense e = GREATER_OR_EQUAL then Inr (lower, mip_INF)
             else if sense e = EQUAL then Inr (lower, upper)
             else Inl AssertionError)
      in case bounds of
           Inl err \<Rightarrow> Inl err
         | Inr (lower, upper) \<Rightarrow>
             (let num_new_nz = int (length (expr e))
              in case ffi_new_int (map (\<lambda>(var, coef). idx var) (expr e)) of
                   Inl err \<Rightarrow> Inl err
                 | Inr index \<Rightarrow>
                     (case ffi_new_double (map (\<lambda>(var, coef). coef) (expr e)) of
                        Inl err \<Rightarrow> Inl err
                      | Inr value \<Rightarrow>
                          (case to_double lower of
                             Inl err \<Rightarrow> Inl err
                           | Inr lo \<Rightarrow>
                               (case to_double upper of
                                  Inl err \<Rightarrow> Inl err
                                | Inr up \<Rightarrow> Inr (lo, up, num_new_nz, index, value))))))"

definition add_constr :: "adapter \<Rightarrow> lin_expr \<Rightarrow> string \<Rightarrow> error option \<times> adapter" where
  "add_constr self e name =
     (let row = num_rows self
      in case add_row_arguments e of
           Inl err \<Rightarrow> (Some err, self)
         | Inr (lower, upper, num_new_nz, index, value) \<Rightarrow>
             (let m = snd (Highs_addRow (s_lib self) (s_model self)
                             lower upper num_new_nz index value)
              in (None, self\<lparr>s_model := m,
                             s_cons_name := s_cons_name self @ [name],
                             s_cons_col := (s_cons_col self)(name \<mapsto> row)\<rparr>)))"

definition add_lazy_constr :: "adapter \<Rightarrow> lin_expr \<Rightarrow> error option \<times> adapter" where
  "add_lazy_constr self e = (Some NotImplementedError, self)"

definition add_sos :: "adapter \<Rightarrow> (var \<times> pynum) list \<Rightarrow> int \<Rightarrow> error option \<times> adapter" where
  "add_sos self sos sos_type = (Some NotImplementedError, self)"

definition add_cut :: "adapter \<Rightarrow> lin_expr \<Rightarrow> error option \<times> adapter" where
  "add_cut self e = (Some NotImplementedError, self)"

definition get_objective_const :: "adapter \<Rightarrow> double" where
  "get_objective_const self = snd (Highs_getObjectiveOffset (s_model self))"

definition set_objective_const :: "adapter \<Rightarrow> pynum \<Rightarrow> error option \<times> adapter" where
  "set_objective_const self const' =
     (case to_double const' of
        Inl err \<Rightarrow> (Some err, self)
      | Inr off \<Rightarrow>
          (None, self\<lparr>s_model := snd (Highs_changeObjectiveOffset (s_model self) off)\<rparr>))"

definition relax :: "adapter \<Rightarrow> error option \<times> adapter" where
  "relax self =
     (let n = num_cols self;
          integrality = replicate (nat n) kHighsVarTypeContinuous
      in (None,
          self\<lparr>s_model :=
                 snd (Highs_changeColsIntegralityByRange (s_model self) 0 (n - 1) integrality)\<rparr>))"

text \<open>
  The loop of \<^verbatim>\<open>set_objective\<close> over the items of the coefficient dictionary. An item
  whose index or coefficient does not convert raises and leaves the costs written so
  far.
\<close>

fun set_coefficients :: "highs \<Rightarrow> (var \<times> pynum) list \<Rightarrow> error option \<times> highs" where
  "set_coefficients m [] = (None, m)"
| "set_coefficients m ((var, coef) # items) =
     (case to_c_int (idx var) of
        Inl err \<Rightarrow> (Some err, m)
      | Inr col \<Rightarrow>
          (case to_double coef of
             Inl err \<Rightarrow> (Some err, m)
           | Inr cost \<Rightarrow> set_coefficients (snd (Highs_changeColCost m col cost)) items))"

text \<open>\<^verbatim>\<open>set_objective\<close>: the second parameter is accepted and never read.\<close>

definition set_objective :: "adapter \<Rightarrow> lin_expr \<Rightarrow> string \<Rightarrow> error option \<times> adapter" where
  "set_objective self e sense' =
     (case set_coefficients (s_model self) (expr e) of
        (Some err, m) \<Rightarrow> (Some err, self\<lparr>s_model := m\<rparr>)
      | (None, m) \<Rightarrow>
          (case set_objective_const (self\<lparr>s_model := m\<rparr>) (const e) of
             (Some err, self2) \<Rightarrow> (Some err, self2)
           | (None, self2) \<Rightarrow> set_objective_sense self2 (sense e)))"

text \<open>
  The generator of \<^verbatim>\<open>get_objective\<close>: one term per column with a nonzero cost, looked up
  in the front end's list of variables (\<^verbatim>\<open>self.model.vars\<close>), which raises when the
  list is too short. The coefficient of a term is the cost as a Python \<^verbatim>\<open>float\<close>.
\<close>

fun objective_terms :: "var list \<Rightarrow> double list \<Rightarrow> nat list \<Rightarrow> error + (var \<times> pynum) list" where
  "objective_terms vars costs [] = Inr []"
| "objective_terms vars costs (i # rest) =
     (if costs ! i \<noteq> Fin 0
      then (if i < length vars
            then (case objective_terms vars costs rest of
                    Inl e \<Rightarrow> Inl e
                  | Inr ts \<Rightarrow> Inr ((vars ! i, PyFloat (costs ! i)) # ts))
            else Inl IndexError)
      else objective_terms vars costs rest)"

text \<open>
  Modelled from the spec: \<^verbatim>\<open>mip.xsum\<close> and \<^verbatim>\<open>LinExpr.add_const\<close> belong to the front
  end and are not part of the source at hand. The sum of the terms is the expression
  with these terms, the constant \<^verbatim>\<open>0.0\<close> and no sense; \<^verbatim>\<open>add_const\<close> adds a double
  to the constant, converting an \<^verbatim>\<open>int\<close> constant first.
\<close>

definition xsum :: "(var \<times> pynum) list \<Rightarrow> lin_expr" where
  "xsum ts = \<lparr>expr = ts, const = PyFloat (Fin 0), sense = []\<rparr>"

definition add_const :: "lin_expr \<Rightarrow> double \<Rightarrow> error + lin_expr" where
  "add_const e c =
     (case to_double (const e) of
        Inl err \<Rightarrow> Inl err
      | Inr d \<Rightarrow> Inr (e\<lparr>const := PyFloat (dadd d c)\<rparr>))"

definition get_objective :: "adapter \<Rightarrow> var list \<Rightarrow> error + lin_expr" where
  "get_objective self vars =
     (let n = num_cols self;
          costs = snd (Highs_getColsByRange (s_model self) 0 (n - 1)
                         (replicate (nat n) (Fin 0)))
      in case objective_terms vars costs [0..<nat n] of
           Inl e \<Rightarrow> Inl e
         | Inr ts \<Rightarrow>
             (case add_const (xsum ts) (get_objective_const self) of
                Inl e \<Rightarrow> Inl e
              | Inr obj_expr \<Rightarrow>
                  (case get_objective_sense self of
                     Inl e \<Rightarrow> Inl e
                   | Inr s \<Rightarrow> Inr (obj_expr\<lparr>sense := s\<rparr>))))"

text \<open>Python list indexing: a negative index counts from the end.\<close>

definition var_get_name :: "adapter \<Rightarrow> int \<Rightarrow> error + string" where
  "var_get_name self idx' =
     (let n = int (length (s_var_name self));
          j = (if idx' < 0 then n + idx' else idx')
      in if 0 \<le> j \<and> j < n then Inr (s_var_name self ! nat j) else Inl IndexError)"

definition var_get_index :: "adapter \<Rightarrow> string \<Rightarrow> error + int" where
  "var_get_index self name =
     (case s_var_col self name of None \<Rightarrow> Inl KeyError | Some col \<Rightarrow> Inr col)"

subsection \<open>Reading an objective back\<close>

text \<open>
  Modelled from the spec: the front end's list \<^verbatim>\<open>self.model.vars\<close> is not part of the
  source at hand. Its objects carry their column index, so for a model with \<open>n\<close> columns
  it is the list of the variables with indices \<open>0, \<dots>, n - 1\<close>.
\<close>

definition front_vars :: "nat \<Rightarrow> var list" where
  "front_vars n = map (\<lambda>i. Var (int i)) [0..<n]"

subsection \<open>Sequences of calls\<close>

text \<open>
  An \<^verbatim>\<open>add_var\<close> call succeeds when it returns normally and the library reports
  success for the new column. An \<^verbatim>\<open>add_constr\<close> call is accepted when the library
  reports success for the row, if the call gets as far as asking for it.
\<close>

definition add_var_succeeds :: "adapter \<Rightarrow> pynum \<Rightarrow> pynum \<Rightarrow> pynum \<Rightarrow> bool" where
  "add_var_succeeds self obj lb ub =
     (case to_double lb of
        Inl err \<Rightarrow> False
      | Inr lower \<Rightarrow>
          (case to_double ub of
             Inl err \<Rightarrow> False
           | Inr upper \<Rightarrow>
               (case to_double obj of
                  Inl err \<Rightarrow> False
                | Inr cost \<Rightarrow>
                    fst (Highs_addVar (s_lib self) (s_model self) lower upper) = 0)))"







text \<open>A sequence of \<^verbatim>\<open>add_var\<close> calls, each given as its tuple of arguments.\<close>

fun add_vars :: "adapter \<Rightarrow> (pynum \<times> pynum \<times> pynum \<times> string \<times> string) list \<Rightarrow> adapter" where
  "add_vars self [] = self"
| "add_vars self ((obj, lb, ub, var_type, name) # rest) =
     add_vars (snd (add_var self obj lb ub var_type name)) rest"

fun add_vars_succeed ::
  "adapter \<Rightarrow> (pynum \<times> pynum \<times> pynum \<times> string \<times> string) list \<Rightarrow> bool" where
  "add_vars_succeed self [] = True"
| "add_vars_succeed self ((obj, lb, ub, var_type, name) # rest) =
     (add_var_succeeds self obj lb ub
      \<and> add_vars_succeed (snd (add_var self obj lb ub var_type name)) rest)"

definition name_of :: "pynum \<times> pynum \<times> pynum \<times> string \<times> string \<Rightarrow> string" where
  "name_of a = snd (snd (snd (snd a)))"

subsection \<open>Example inputs\<close>

text \<open>
  An example library: it refuses a column whose lower bound is \<open>10 ^ 20\<close> or more (or
  NaN), and a row with a coefficient of magnitude \<open>10 ^ 15\<close> or more (or NaN).
\<close>

definition example_lib :: highslib where
  "example_lib =
     \<lparr>addVar_accepts =
        (\<lambda>h lower upper.
           case lower of NaN \<Rightarrow> False | NegInf \<Rightarrow> True | Fin x \<Rightarrow> x < 10 ^ 20
                       | PosInf \<Rightarrow> False),
      addRow_accepts =
        (\<lambda>h lower upper num_new_nz index value.
           list_all (\<lambda>v. case v of NaN \<Rightarrow> False | NegInf \<Rightarrow> False
                              | Fin x \<Rightarrow> \<bar>x\<bar> < 10 ^ 15 | PosInf \<Rightarrow> False) value)\<rparr>"

text \<open>
  An environment in which the override variable names a file that holds this library,
  and the adapter that the constructor returns in it.
\<close>

definition example_env :: environment where
  "example_env =
     \<lparr>environ = [ENV_KEY \<mapsto> ''/opt/highs/lib/libhighs.so''], highspy_file = None,
      platform = ''linux'', glob_fs = (\<lambda>p. []), dlopen_ok = (\<lambda>f. True),
      library_at = (\<lambda>f. example_lib)\<rparr>"

definition fresh_adapter :: adapter where
  "fresh_adapter =
     \<lparr>s_lib = example_lib, s_model = Highs_create, s_name = ''m'', s_var_name = [],
      s_var_col = Map.empty, s_cons_name = [], s_cons_col = Map.empty\<rparr>"


definition example_vars :: "(pynum \<times> pynum \<times> pynum \<times> string \<times> string) list" where
  "example_vars =
     [(PyInt 2, PyInt 0, mip_INF, CONTINUOUS, ''x0''),
      (PyInt 3, PyInt 0, mip_INF, INTEGER, ''x1''),
      (PyInt 0, PyFloat NegInf, PyInt 5, CONTINUOUS, ''y'')]"

text \<open>
  A Python \<^verbatim>\<open>int\<close> beyond the range of a double, and the floats \<^verbatim>\<open>1e20\<close> and
  \<^verbatim>\<open>1e16\<close>.
\<close>

definition huge_int :: pynum where
  "huge_int = PyInt (10 ^ 400)"

definition float_1e20 :: pynum where
  "float_1e20 = PyFloat (Fin (10 ^ 20))"


text \<open>An environment with neither the override variable nor the package.\<close>

definition missing_env :: environment where
  "missing_env =
     \<lparr>environ = Map.empty, highspy_file = None, platform = ''linux'',
      glob_fs = (\<lambda>p. []), dlopen_ok = (\<lambda>f. False), library_at = (\<lambda>f. example_lib)\<rparr>"

text \<open>
  A model with three columns, the second of integer kind, and objectives to set on it.
\<close>

definition example_adapter :: adapter where
  "example_adapter = add_vars fresh_adapter example_vars"

definition empty_objective :: lin_expr where
  "empty_objective = \<lparr>expr = [], const = PyInt 0, sense = MINIMIZE\<rparr>"

subsection \<open>The negated constant\<close>

text \<open>
  The negation of a double written out: the sign of a finite value is flipped, the
  infinities are exchanged, NaN stays.
\<close>

abbreviation negated :: "double \<Rightarrow> double" where
  "negated d \<equiv> (case d of NaN \<Rightarrow> NaN | NegInf \<Rightarrow> PosInf | Fin x \<Rightarrow> Fin (- x) | PosInf \<Rightarrow> NegInf)"

section \<open>Properties\<close>

subsection \<open>Conversion of numbers\<close>

lemma bit_length_le: "m < 2 ^ k \<Longrightarrow> bit_length m \<le> k"
proof (induction k arbitrary: m)
  case 0
  then show ?case by (simp add: bit_length.simps)
next
  case (Suc k)
  show ?case
  proof (cases "m = 0")
    case True
    then show ?thesis by (simp add: bit_length.simps)
  next
    case False
    from Suc.prems have "m div 2 < 2 ^ k" by simp
    then have "bit_length (m div 2) \<le> k" by (rule Suc.IH)
    with False show ?thesis by (subst bit_length.simps) simp
  qed
qed

lemma round_to_double_small: "m < 2 ^ 53 \<Longrightarrow> round_to_double m = m"
  using bit_length_le [of m 53] by (simp add: round_to_double_def)

lemma int_to_double_small:
  assumes "\<bar>n\<bar> < 2 ^ 53"
  shows "int_to_double n = Inr (Fin (real_of_int n))"
proof -
  have "nat \<bar>n\<bar> < 2 ^ 53"
    using assms by (simp add: nat_less_iff)
  then have r: "round_to_double (nat \<bar>n\<bar>) = nat \<bar>n\<bar>"
    by (rule round_to_double_small)
  have big: "\<not> (2 ^ 1024 - 2 ^ 970 \<le> \<bar>n\<bar>)"
    using assms by simp
  have "(if n < 0 then - real (nat \<bar>n\<bar>) else real (nat \<bar>n\<bar>)) = real_of_int n"
    by simp
  then show ?thesis
    unfolding int_to_double_def r using big by simp
qed

lemma to_double_small [simp]:
  "\<bar>n\<bar> < 2 ^ 53 \<Longrightarrow> to_double (PyInt n) = Inr (Fin (real_of_int n))"
  by (simp add: to_double_def int_to_double_small)

lemma to_double_float [simp]: "to_double (PyFloat d) = Inr d"
  by (simp add: to_double_def)

lemma to_double_neg:
  "to_double (py_neg c) = (case to_double c of Inl err \<Rightarrow> Inl err | Inr d \<Rightarrow> Inr (dneg d))"
proof (cases c)
  case (PyInt n)
  have "round_to_double 0 = 0"
    by (simp add: round_to_double_small)
  with PyInt show ?thesis
    by (simp add: to_double_def int_to_double_def)
next
  case (PyFloat d)
  then show ?thesis by simp
qed

lemma to_double_huge: "to_double huge_int = Inl OverflowError"
  by (simp add: huge_int_def to_double_def int_to_double_def)

lemma to_double_1e20: "to_double float_1e20 = Inr (Fin (10 ^ 20))"
  by (simp add: float_1e20_def)

text \<open>\<^verbatim>\<open>float(2 ** 53 + 1)\<close> is \<^verbatim>\<open>2.0 ** 53\<close>: the tie goes to the even neighbour.\<close>

lemma bit_length_zero: "bit_length 0 = 0"
  by (subst bit_length.simps) simp

lemma bit_length_one: "bit_length (Suc 0) = Suc 0"
  by (subst bit_length.simps) (simp add: bit_length_zero)

lemma bit_length_Bit0: "bit_length (numeral (Num.Bit0 k)) = Suc (bit_length (numeral k))"
  by (subst bit_length.simps) simp

lemma bit_length_Bit1: "bit_length (numeral (Num.Bit1 k)) = Suc (bit_length (numeral k))"
  by (subst bit_length.simps) simp

lemma bit_length_54: "bit_length 9007199254740993 = 54"
  by (simp add: bit_length_one bit_length_Bit0 bit_length_Bit1)

lemma round_example: "round_to_double 9007199254740993 = 9007199254740992"
  unfolding round_to_double_def bit_length_54 by (simp add: Let_def)

lemma int_to_double_rounds: "int_to_double (2 ^ 53 + 1) = Inr (Fin (2 ^ 53))"
proof -
  have "nat \<bar>9007199254740993\<bar> = 9007199254740993" by simp
  then show ?thesis
    unfolding int_to_double_def by (simp add: round_example)
qed

subsection \<open>Basic facts about the calls\<close>

lemma init_example: "SolverHighs_init example_env ''m'' MINIMIZE = Inr fresh_adapter"
  by (simp add: SolverHighs_init_def has_highs_def highslib_def load_library_def example_env_def
      dlopen_def set_objective_sense_def sense_map_set_def MINIMIZE_def MAXIMIZE_def
      Highs_changeObjectiveSense_def Highs_create_def fresh_adapter_def
      kHighsObjSenseMinimize_def kHighsObjSenseMaximize_def)

lemma cols_changeColCost [simp]:
  "length (cols (snd (Highs_changeColCost m c x))) = length (cols m)"
  by (simp add: Highs_changeColCost_def)

lemma rows_changeColCost [simp]:
  "rows (snd (Highs_changeColCost m c x)) = rows m"
  by (simp add: Highs_changeColCost_def)

lemma cols_changeColIntegrality [simp]:
  "length (cols (snd (Highs_changeColIntegrality m c x))) = length (cols m)"
  by (simp add: Highs_changeColIntegrality_def)

lemma rows_changeColIntegrality [simp]:
  "rows (snd (Highs_changeColIntegrality m c x)) = rows m"
  by (simp add: Highs_changeColIntegrality_def)

lemma add_var_succeedsD:
  assumes "add_var_succeeds self obj lb ub"
  obtains lower upper cost where "to_double lb = Inr lower" and "to_double ub = Inr upper"
    and "to_double obj = Inr cost"
    and "addVar_accepts (s_lib self) (s_model self) lower upper"
  using assms
  by (auto simp add: add_var_succeeds_def Highs_addVar_def split: sum.splits if_splits)

lemma add_var_fields:
  assumes "add_var_succeeds self obj lb ub"
  shows "fst (add_var self obj lb ub var_type name) = None"
    and "s_var_name (snd (add_var self obj lb ub var_type name)) = s_var_name self @ [name]"
    and "s_var_col (snd (add_var self obj lb ub var_type name))
           = (s_var_col self)(name \<mapsto> num_cols self)"
    and "s_cons_name (snd (add_var self obj lb ub var_type name)) = s_cons_name self"
    and "s_cons_col (snd (add_var self obj lb ub var_type name)) = s_cons_col self"
    and "s_lib (snd (add_var self obj lb ub var_type name)) = s_lib self"
  using assms
  by (auto elim!: add_var_succeedsD simp add: add_var_def Let_def)

lemma add_var_counts:
  assumes "add_var_succeeds self obj lb ub"
  shows "num_cols (snd (add_var self obj lb ub var_type name)) = num_cols self + 1"
    and "num_rows (snd (add_var self obj lb ub var_type name)) = num_rows self"
  using assms
  by (auto elim!: add_var_succeedsD simp add: add_var_def Let_def num_cols_def num_rows_def
      Highs_getNumCol_def Highs_getNumRow_def Highs_addVar_def)


lemma add_constr_raises:
  "add_row_arguments e = Inl err \<Longrightarrow> add_constr self e name = (Some err, self)"
  by (simp add: add_constr_def)


lemma init_counts:
  assumes "SolverHighs_init env name sense' = Inr self"
  shows "s_var_name self = [] \<and> s_cons_name self = [] \<and> s_var_col self = Map.empty
    \<and> num_cols self = 0 \<and> num_rows self = 0"
  using assms
  by (auto simp add: SolverHighs_init_def set_objective_sense_def num_cols_def num_rows_def
      Highs_getNumCol_def Highs_getNumRow_def Highs_changeObjectiveSense_def Highs_create_def
      split: if_splits option.splits)

lemma s_lib_add_var [simp]:
  "s_lib (snd (add_var self obj lb ub var_type name)) = s_lib self"
  by (simp add: add_var_def Let_def split: sum.splits)

lemma s_lib_add_constr [simp]:
  "s_lib (snd (add_constr self e name)) = s_lib self"
  by (simp add: add_constr_def Let_def split: sum.splits prod.splits)

lemma s_lib_fresh [simp]: "s_lib fresh_adapter = example_lib"
  by (simp add: fresh_adapter_def)

lemma fresh_counts [simp]:
  "num_cols fresh_adapter = 0" "s_var_name fresh_adapter = []" "s_model fresh_adapter = Highs_create"
  by (simp_all add: fresh_adapter_def num_cols_def Highs_getNumCol_def Highs_create_def)

lemma example_lib_accepts_var:
  assumes "s_lib self = example_lib"
    and "to_double lb = Inr (Fin x)" and "x < 10 ^ 20"
    and "to_double ub = Inr upper" and "to_double obj = Inr cost"
  shows "add_var_succeeds self obj lb ub"
  using assms by (simp add: add_var_succeeds_def Highs_addVar_def example_lib_def)



lemma example_adapter_model:
  "s_model example_adapter =
     \<lparr>cols = [\<lparr>col_lower = Fin 0, col_upper = PosInf, col_cost = Fin 2, col_integrality = 0\<rparr>,
              \<lparr>col_lower = Fin 0, col_upper = PosInf, col_cost = Fin 3, col_integrality = 1\<rparr>,
              \<lparr>col_lower = NegInf, col_upper = Fin 5, col_cost = Fin 0, col_integrality = 0\<rparr>],
       rows = [], obj_offset = Fin 0, obj_sense = 1\<rparr>"
  by (simp add: example_adapter_def example_vars_def fresh_adapter_def add_var_def Let_def
      num_cols_def Highs_getNumCol_def Highs_addVar_def Highs_changeColCost_def
      Highs_changeColIntegrality_def Highs_create_def CONTINUOUS_def INTEGER_def mip_INF_def
      example_lib_def
      kHighsVarTypeContinuous_def kHighsVarTypeInteger_def kHighsObjSenseMinimize_def)

lemma example_adapter_cols:
  "num_cols example_adapter = 3" "length (cols (s_model example_adapter)) = 3"
  by (simp_all add: example_adapter_model num_cols_def Highs_getNumCol_def)

subsection \<open>Registry lengths and native counts\<close>







subsection \<open>Names and indices\<close>

lemma add_vars_snoc:
  "add_vars self (args @ [(obj, lb, ub, var_type, name)])
     = snd (add_var (add_vars self args) obj lb ub var_type name)"
  by (induction self args rule: add_vars.induct) simp_all

lemma add_vars_succeed_snoc:
  "add_vars_succeed self (args @ [(obj, lb, ub, var_type, name)])
     \<longleftrightarrow> add_vars_succeed self args \<and> add_var_succeeds (add_vars self args) obj lb ub"
  by (induction self args rule: add_vars.induct) auto

lemma add_vars_names:
  "add_vars_succeed self args \<Longrightarrow>
   s_var_name (add_vars self args) = s_var_name self @ map name_of args
   \<and> num_cols (add_vars self args) = num_cols self + int (length args)"
  by (induction self args rule: add_vars.induct)
     (simp_all add: add_var_fields add_var_counts name_of_def)

lemma add_vars_index:
  assumes "add_vars_succeed self args"
    and "distinct (map name_of args)" and "k < length args"
  shows "s_var_col (add_vars self args) (name_of (args ! k)) = Some (num_cols self + int k)"
  using assms
proof (induction args arbitrary: k rule: rev_induct)
  case Nil
  then show ?case by simp
next
  case (snoc a args)
  obtain obj lb ub var_type name where a: "a = (obj, lb, ub, var_type, name)"
    by (cases a) auto
  have nm: "name_of a = name" by (simp add: a name_of_def)
  from snoc.prems(1) have ok: "add_vars_succeed self args"
    and last: "add_var_succeeds (add_vars self args) obj lb ub"
    by (simp_all add: a add_vars_succeed_snoc)
  show ?case
  proof (cases "k < length args")
    case True
    have "name_of (args ! k) \<in> name_of ` set args"
      using True by simp
    with snoc.prems have "name_of (args ! k) \<noteq> name"
      using nm by auto
    moreover have "s_var_col (add_vars self args) (name_of (args ! k)) = Some (num_cols self + int k)"
      using snoc.IH [of k] snoc.prems True ok by simp
    ultimately show ?thesis
      using True by (simp add: a add_vars_snoc add_var_fields [OF last] nth_append)
  next
    case False
    with snoc.prems have k: "k = length args" by simp
    show ?thesis
      using add_vars_names [OF ok]
      by (simp add: k a add_vars_snoc add_var_fields [OF last] name_of_def)
  qed
qed

lemma example_vars_succeed: "add_vars_succeed fresh_adapter example_vars"
  unfolding example_vars_def
  by (simp add: example_lib_accepts_var [where x = 0] mip_INF_def add_var_succeeds_def
      Highs_addVar_def example_lib_def)

text \<open>
  C7, for sequences of calls that succeed. On an adapter returned by the constructor,
  after a sequence of \<^verbatim>\<open>add_var\<close> calls with pairwise distinct names, each returning
  normally with the library reporting success for the column, \<^verbatim>\<open>var_get_index\<close> of
  the \<open>k\<close>-th name returns \<open>k\<close> and \<^verbatim>\<open>var_get_name\<close> of \<open>k\<close> returns the \<open>k\<close>-th name
  (counting from zero).
\<close>

theorem names_follow_insertion_order:
  assumes "SolverHighs_init env name sense' = Inr self"
    and "add_vars_succeed self args"
    and "distinct (map name_of args)"
    and "k < length args"
  shows "var_get_index (add_vars self args) (name_of (args ! k)) = Inr (int k)
       \<and> var_get_name (add_vars self args) (int k) = Inr (name_of (args ! k))"
proof -
  from init_counts [OF assms(1)] have z: "num_cols self = 0" "s_var_name self = []" by simp_all
  have "s_var_col (add_vars self args) (name_of (args ! k)) = Some (int k)"
    using add_vars_index [OF assms(2,3,4)] z by simp
  moreover have "s_var_name (add_vars self args) = map name_of args"
    using add_vars_names [OF assms(2)] z by simp
  ultimately show ?thesis
    using assms(4) by (simp add: var_get_index_def var_get_name_def Let_def)
qed

theorem names_follow_insertion_order_witness:
  "SolverHighs_init example_env ''m'' MINIMIZE = Inr fresh_adapter
   \<and> add_vars_succeed fresh_adapter example_vars
   \<and> distinct (map name_of example_vars) \<and> (1::nat) < length example_vars
   \<and> var_get_index (add_vars fresh_adapter example_vars) ''x1'' = Inr 1
   \<and> var_get_name (add_vars fresh_adapter example_vars) 1 = Inr ''x1''"
proof -
  have d: "distinct (map name_of example_vars)"
    by (simp add: example_vars_def name_of_def)
  have l: "(1::nat) < length example_vars"
    by (simp add: example_vars_def)
  have n: "name_of (example_vars ! 1) = ''x1''"
    by (simp add: example_vars_def name_of_def)
  from names_follow_insertion_order [OF init_example example_vars_succeed d l]
    n init_example example_vars_succeed d l
  show ?thesis by simp
qed

text \<open>
  C7 as stated, for every sequence, fails: when the library refuses the first column,
  the second name is registered at index 0 as well; when the first call raises on its
  cost, its name is unknown afterwards and index 1 has no name.
\<close>

theorem names_follow_insertion_order_counterexample:
  "SolverHighs_init example_env ''m'' MINIMIZE = Inr fresh_adapter
   \<and> distinct (map name_of [(PyInt 0, float_1e20, mip_INF, CONTINUOUS, ''a''),
                             (PyInt 0, PyInt 0, mip_INF, CONTINUOUS, ''b'')])
   \<and> name_of ([(PyInt 0, float_1e20, mip_INF, CONTINUOUS, ''a''),
                (PyInt 0, PyInt 0, mip_INF, CONTINUOUS, ''b'')] ! 1) = ''b''
   \<and> var_get_index
        (add_vars fresh_adapter [(PyInt 0, float_1e20, mip_INF, CONTINUOUS, ''a''),
                                 (PyInt 0, PyInt 0, mip_INF, CONTINUOUS, ''b'')]) ''b'' = Inr 0
   \<and> var_get_index
        (add_vars fresh_adapter [(PyInt 0, float_1e20, mip_INF, CONTINUOUS, ''a''),
                                 (PyInt 0, PyInt 0, mip_INF, CONTINUOUS, ''b'')]) ''a'' = Inr 0
   \<and> fst (add_var fresh_adapter huge_int (PyInt 0) mip_INF CONTINUOUS ''a'')
       = Some OverflowError
   \<and> var_get_index
        (add_vars fresh_adapter [(huge_int, PyInt 0, mip_INF, CONTINUOUS, ''a''),
                                 (PyInt 0, PyInt 0, mip_INF, CONTINUOUS, ''b'')]) ''a''
       = Inl KeyError
   \<and> var_get_name
        (add_vars fresh_adapter [(huge_int, PyInt 0, mip_INF, CONTINUOUS, ''a''),
                                 (PyInt 0, PyInt 0, mip_INF, CONTINUOUS, ''b'')]) 1
       = Inl IndexError"
  using init_example
  by (simp add: name_of_def add_var_def Let_def to_double_1e20 to_double_huge mip_INF_def
      Highs_addVar_def example_lib_def Highs_create_def num_cols_def Highs_getNumCol_def
      Highs_changeColCost_def var_get_index_def var_get_name_def fresh_adapter_def)

subsection \<open>Constraint bounds\<close>

lemma dneg_negated: "dneg d = negated d"
  by (cases d) simp_all

lemma add_row_arguments_eq:
  assumes "ffi_new_int (map (\<lambda>(var, coef). idx var) xs) = Inr index"
    and "ffi_new_double (map (\<lambda>(var, coef). coef) xs) = Inr value"
    and "to_double c = Inr d"
  shows "add_row_arguments \<lparr>expr = xs, const = c, sense = EQUAL\<rparr>
           = Inr (negated d, negated d, int (length xs), index, value)"
    and "add_row_arguments \<lparr>expr = xs, const = c, sense = LESS_OR_EQUAL\<rparr>
           = Inr (NegInf, negated d, int (length xs), index, value)"
    and "add_row_arguments \<lparr>expr = xs, const = c, sense = GREATER_OR_EQUAL\<rparr>
           = Inr (negated d, PosInf, int (length xs), index, value)"
  using assms
  by (simp_all add: add_row_arguments_def Let_def EQUAL_def LESS_OR_EQUAL_def
      GREATER_OR_EQUAL_def mip_INF_def to_double_neg dneg_negated)

text \<open>
  C2. Let the indices and coefficients of the expression fit their C types and let the
  constant convert to the double \<open>d\<close>, so that \<^verbatim>\<open>add_constr\<close> reaches the native call.
  Then the bounds passed to \<^verbatim>\<open>Highs_addRow\<close> are: both the negated \<open>d\<close> for an
  equality; negative infinity below and the negated \<open>d\<close> above for less-or-equal; the
  negated \<open>d\<close> below and positive infinity above for greater-or-equal. The call also
  passes the number of entries, the indices and the coefficients, and \<^verbatim>\<open>add_constr\<close>
  returns normally with the name registered at the row count read before the call.
\<close>

theorem add_constr_row_bounds:
  assumes "ffi_new_int (map (\<lambda>(var, coef). idx var) xs) = Inr index"
    and "ffi_new_double (map (\<lambda>(var, coef). coef) xs) = Inr value"
    and "to_double c = Inr d"
  shows "add_row_arguments \<lparr>expr = xs, const = c, sense = EQUAL\<rparr>
           = Inr (negated d, negated d, int (length xs), index, value)
   \<and> add_row_arguments \<lparr>expr = xs, const = c, sense = LESS_OR_EQUAL\<rparr>
           = Inr (NegInf, negated d, int (length xs), index, value)
   \<and> add_row_arguments \<lparr>expr = xs, const = c, sense = GREATER_OR_EQUAL\<rparr>
           = Inr (negated d, PosInf, int (length xs), index, value)
   \<and> add_constr self \<lparr>expr = xs, const = c, sense = EQUAL\<rparr> name =
       (None, self\<lparr>s_model := snd (Highs_addRow (s_lib self) (s_model self)
                                      (negated d) (negated d) (int (length xs)) index value),
                   s_cons_name := s_cons_name self @ [name],
                   s_cons_col := (s_cons_col self)(name \<mapsto> num_rows self)\<rparr>)
   \<and> add_constr self \<lparr>expr = xs, const = c, sense = LESS_OR_EQUAL\<rparr> name =
       (None, self\<lparr>s_model := snd (Highs_addRow (s_lib self) (s_model self)
                                      NegInf (negated d) (int (length xs)) index value),
                   s_cons_name := s_cons_name self @ [name],
                   s_cons_col := (s_cons_col self)(name \<mapsto> num_rows self)\<rparr>)
   \<and> add_constr self \<lparr>expr = xs, const = c, sense = GREATER_OR_EQUAL\<rparr> name =
       (None, self\<lparr>s_model := snd (Highs_addRow (s_lib self) (s_model self)
                                      (negated d) PosInf (int (length xs)) index value),
                   s_cons_name := s_cons_name self @ [name],
                   s_cons_col := (s_cons_col self)(name \<mapsto> num_rows self)\<rparr>)"
  by (simp add: add_constr_def Let_def add_row_arguments_eq [OF assms])

theorem add_constr_row_bounds_witness:
  "add_row_arguments \<lparr>expr = [(Var 0, PyInt 1), (Var 1, PyFloat (Fin 2.5))],
                       const = PyInt (- 10), sense = EQUAL\<rparr>
     = Inr (Fin 10, Fin 10, 2, [0, 1], [Fin 1, Fin 2.5])
   \<and> add_row_arguments \<lparr>expr = [(Var 0, PyInt 1), (Var 1, PyFloat (Fin 2.5))],
                       const = PyInt (- 10), sense = LESS_OR_EQUAL\<rparr>
     = Inr (NegInf, Fin 10, 2, [0, 1], [Fin 1, Fin 2.5])
   \<and> add_row_arguments \<lparr>expr = [(Var 0, PyInt 1), (Var 1, PyFloat (Fin 2.5))],
                       const = PyInt (- 10), sense = GREATER_OR_EQUAL\<rparr>
     = Inr (Fin 10, PosInf, 2, [0, 1], [Fin 1, Fin 2.5])
   \<and> rows (s_model (snd (add_constr fresh_adapter
        \<lparr>expr = [(Var 0, PyInt 1), (Var 1, PyFloat (Fin 2.5))],
          const = PyInt (- 10), sense = LESS_OR_EQUAL\<rparr> ''c0'')))
     = [\<lparr>row_lower = NegInf, row_upper = Fin 10, row_index = [0, 1],
         row_value = [Fin 1, Fin 2.5]\<rparr>]"
proof -
  have i: "ffi_new_int (map (\<lambda>(var, coef). idx var) [(Var 0, PyInt 1), (Var 1, PyFloat (Fin 2.5))])
      = Inr [0, 1]"
    by (simp add: to_c_int_def)
  have v: "ffi_new_double (map (\<lambda>(var, coef). coef) [(Var 0, PyInt 1), (Var 1, PyFloat (Fin 2.5))])
      = Inr [Fin 1, Fin 2.5]"
    by simp
  have c: "to_double (PyInt (- 10)) = Inr (Fin (- 10))"
    by simp
  from add_constr_row_bounds [OF i v c, of fresh_adapter "''c0''"]
  show ?thesis
    by (simp add: Highs_addRow_def example_lib_def Highs_create_def)
qed

subsection \<open>Objective sense\<close>

text \<open>
  C6. For every adapter, \<^verbatim>\<open>set_objective_sense\<close> with minimize returns normally and
  \<^verbatim>\<open>get_objective_sense\<close> then returns minimize; likewise for maximize. The two
  dictionaries translate minimize to and from the native constant 1 and maximize to
  and from the native constant -1.
\<close>

theorem objective_sense_round_trip:
  "fst (set_objective_sense self MINIMIZE) = None
   \<and> get_objective_sense (snd (set_objective_sense self MINIMIZE)) = Inr MINIMIZE
   \<and> fst (set_objective_sense self MAXIMIZE) = None
   \<and> get_objective_sense (snd (set_objective_sense self MAXIMIZE)) = Inr MAXIMIZE
   \<and> sense_map_set MINIMIZE = Some 1 \<and> sense_map_set MAXIMIZE = Some (- 1)
   \<and> sense_map_get 1 = Some MINIMIZE \<and> sense_map_get (- 1) = Some MAXIMIZE
   \<and> kHighsObjSenseMinimize = 1 \<and> kHighsObjSenseMaximize = - 1"
  by (simp add: get_objective_sense_def set_objective_sense_def sense_map_set_def
      sense_map_get_def Highs_changeObjectiveSense_def Highs_getObjectiveSense_def
      MINIMIZE_def MAXIMIZE_def kHighsObjSenseMinimize_def kHighsObjSenseMaximize_def)

subsection \<open>Unsupported operations\<close>

text \<open>
  C9. \<^verbatim>\<open>add_lazy_constr\<close>, \<^verbatim>\<open>add_sos\<close> and \<^verbatim>\<open>add_cut\<close> raise
  \<^verbatim>\<open>NotImplementedError\<close> for every argument and every adapter, and the adapter
  (the native model and the registries) is the one the call was made on.
\<close>

theorem unsupported_operations_raise:
  "add_lazy_constr self e = (Some NotImplementedError, self)
   \<and> add_sos self sos sos_type = (Some NotImplementedError, self)
   \<and> add_cut self e = (Some NotImplementedError, self)"
  by (simp add: add_lazy_constr_def add_sos_def add_cut_def)

subsection \<open>Duplicate names\<close>

text \<open>
  C8, for a call that succeeds. \<^verbatim>\<open>add_var\<close> with a name that is already registered,
  when its numbers convert and the library reports success for the column, returns
  normally, allocates one more native column, leaves \<^verbatim>\<open>var_get_index\<close> of that name
  at the new column, and appends the name to the ordered list, which then holds it at
  least twice.
\<close>

theorem duplicate_name_accepted:
  assumes "name \<in> set (s_var_name self)"
    and "add_var_succeeds self obj lb ub"
  shows "fst (add_var self obj lb ub var_type name) = None
       \<and> num_cols (snd (add_var self obj lb ub var_type name)) = num_cols self + 1
       \<and> var_get_index (snd (add_var self obj lb ub var_type name)) name = Inr (num_cols self)
       \<and> s_var_name (snd (add_var self obj lb ub var_type name)) = s_var_name self @ [name]
       \<and> 2 \<le> count_list (s_var_name (snd (add_var self obj lb ub var_type name))) name"
proof -
  from assms(1) have "count_list (s_var_name self) name \<noteq> 0"
    by (simp add: count_list_0_iff)
  then have "0 < count_list (s_var_name self) name"
    by simp
  then show ?thesis
    by (simp add: add_var_fields [OF assms(2)] add_var_counts [OF assms(2)] var_get_index_def)
qed

theorem duplicate_name_accepted_witness:
  "''x'' \<in> set (s_var_name (snd (add_var fresh_adapter (PyInt 1) (PyInt 0) mip_INF CONTINUOUS ''x'')))
   \<and> add_var_succeeds (snd (add_var fresh_adapter (PyInt 1) (PyInt 0) mip_INF CONTINUOUS ''x''))
        (PyInt 4) (PyInt 0) (PyInt 9)
   \<and> var_get_index (snd (add_var fresh_adapter (PyInt 1) (PyInt 0) mip_INF CONTINUOUS ''x'')) ''x''
       = Inr 0
   \<and> fst (add_var (snd (add_var fresh_adapter (PyInt 1) (PyInt 0) mip_INF CONTINUOUS ''x''))
            (PyInt 4) (PyInt 0) (PyInt 9) INTEGER ''x'') = None
   \<and> num_cols (snd (add_var (snd (add_var fresh_adapter (PyInt 1) (PyInt 0) mip_INF CONTINUOUS ''x''))
            (PyInt 4) (PyInt 0) (PyInt 9) INTEGER ''x'')) = 2
   \<and> var_get_index (snd (add_var (snd (add_var fresh_adapter (PyInt 1) (PyInt 0) mip_INF CONTINUOUS ''x''))
            (PyInt 4) (PyInt 0) (PyInt 9) INTEGER ''x'')) ''x'' = Inr 1
   \<and> s_var_name (snd (add_var (snd (add_var fresh_adapter (PyInt 1) (PyInt 0) mip_INF CONTINUOUS ''x''))
            (PyInt 4) (PyInt 0) (PyInt 9) INTEGER ''x'')) = [''x'', ''x'']"
proof -
  let ?a = "snd (add_var fresh_adapter (PyInt 1) (PyInt 0) mip_INF CONTINUOUS ''x'')"
  have first: "add_var_succeeds fresh_adapter (PyInt 1) (PyInt 0) mip_INF"
    by (simp add: example_lib_accepts_var [where x = 0] mip_INF_def)
  have h: "''x'' \<in> set (s_var_name ?a)"
    by (simp add: add_var_fields [OF first])
  have second: "add_var_succeeds ?a (PyInt 4) (PyInt 0) (PyInt 9)"
    by (simp add: example_lib_accepts_var [where x = 0])
  from duplicate_name_accepted [OF h second, of INTEGER] h second
  show ?thesis
    by (simp add: add_var_fields [OF first] add_var_counts [OF first] var_get_index_def)
qed

text \<open>
  C8 as stated, for every second call, fails: with a cost that does not convert the
  call raises, the list holds the name once and the index stays at the first column;
  with a bound that does not convert the call raises as well; with a column that the
  library refuses no column is allocated.
\<close>

theorem duplicate_name_accepted_counterexample:
  "''x'' \<in> set (s_var_name (snd (add_var fresh_adapter (PyInt 1) (PyInt 0) mip_INF CONTINUOUS ''x'')))
   \<and> num_cols (snd (add_var fresh_adapter (PyInt 1) (PyInt 0) mip_INF CONTINUOUS ''x'')) = 1
   \<and> fst (add_var (snd (add_var fresh_adapter (PyInt 1) (PyInt 0) mip_INF CONTINUOUS ''x''))
            huge_int (PyInt 0) mip_INF CONTINUOUS ''x'') = Some OverflowError
   \<and> s_var_name (snd (add_var (snd (add_var fresh_adapter (PyInt 1) (PyInt 0) mip_INF CONTINUOUS ''x''))
            huge_int (PyInt 0) mip_INF CONTINUOUS ''x'')) = [''x'']
   \<and> var_get_index (snd (add_var (snd (add_var fresh_adapter (PyInt 1) (PyInt 0) mip_INF CONTINUOUS ''x''))
            huge_int (PyInt 0) mip_INF CONTINUOUS ''x'')) ''x'' = Inr 0
   \<and> fst (add_var (snd (add_var fresh_adapter (PyInt 1) (PyInt 0) mip_INF CONTINUOUS ''x''))
            (PyInt 4) huge_int mip_INF CONTINUOUS ''x'') = Some OverflowError
   \<and> fst (add_var (snd (add_var fresh_adapter (PyInt 1) (PyInt 0) mip_INF CONTINUOUS ''x''))
            (PyInt 4) float_1e20 mip_INF CONTINUOUS ''x'') = None
   \<and> num_cols (snd (add_var (snd (add_var fresh_adapter (PyInt 1) (PyInt 0) mip_INF CONTINUOUS ''x''))
            (PyInt 4) float_1e20 mip_INF CONTINUOUS ''x'')) = 1"
  by (simp add: add_var_def Let_def to_double_huge to_double_1e20 mip_INF_def
      Highs_addVar_def example_lib_def Highs_create_def num_cols_def Highs_getNumCol_def
      Highs_changeColCost_def var_get_index_def)

subsection \<open>Missing library\<close>

lemma message_mentions:
  "str_contains ''highspy'' not_found_message
   \<and> str_contains ''PMIP_HIGHS_LIBRARY'' not_found_message"
  by (simp add: not_found_message_def)

text \<open>
  C5. When loading the library raised (whatever the exception), importing the module
  still completes with \<^verbatim>\<open>has_highs\<close> false, and the constructor raises
  \<^verbatim>\<open>FileNotFoundError\<close> instead of returning an adapter; its message names the
  \<^verbatim>\<open>highspy\<close> package and the \<^verbatim>\<open>PMIP_HIGHS_LIBRARY\<close> variable.
\<close>

theorem construction_fails_without_library:
  assumes "load_library env = Inl err"
  shows "has_highs env = False
       \<and> SolverHighs_init env name sense' = Inl (FileNotFoundError not_found_message)
       \<and> str_contains ''highspy'' not_found_message
       \<and> str_contains ''PMIP_HIGHS_LIBRARY'' not_found_message"
  using assms message_mentions by (simp add: has_highs_def SolverHighs_init_def)

theorem construction_fails_without_library_witness:
  "load_library missing_env = Inl ImportError
   \<and> has_highs missing_env = False
   \<and> SolverHighs_init missing_env ''m'' MINIMIZE = Inl (FileNotFoundError not_found_message)
   \<and> str_contains ''highspy'' not_found_message
   \<and> str_contains ''PMIP_HIGHS_LIBRARY'' not_found_message"
proof -
  have h: "load_library missing_env = Inl ImportError"
    by (simp add: load_library_def missing_env_def)
  from construction_fails_without_library [OF h, of "''m''" MINIMIZE] h
  show ?thesis by simp
qed

subsection \<open>Relaxation\<close>

lemma by_range_all:
  "cols (snd (Highs_changeColsIntegralityByRange m 0 (int (length (cols m)) - 1)
            (replicate (length (cols m)) v)))
     = map (\<lambda>c. c\<lparr>col_integrality := v\<rparr>) (cols m)"
proof (cases "cols m = []")
  case True
  then show ?thesis
    by (simp add: Highs_changeColsIntegralityByRange_def Highs_getNumCol_def)
next
  case False
  then have pos: "0 < length (cols m)" by simp
  have "map (\<lambda>(k, c). if 0 \<le> int k \<and> int k \<le> int (length (cols m)) - 1
                       then c\<lparr>col_integrality := replicate (length (cols m)) v ! nat (int k - 0)\<rparr>
                       else c) (enumerate 0 (cols m))
        = map (\<lambda>c. c\<lparr>col_integrality := v\<rparr>) (cols m)"
    by (rule nth_equalityI) (simp_all add: nth_enumerate_eq)
  with pos show ?thesis
    by (simp add: Highs_changeColsIntegralityByRange_def Highs_getNumCol_def)
qed

lemma by_range_rest:
  "rows (snd (Highs_changeColsIntegralityByRange m a b xs)) = rows m"
  "obj_offset (snd (Highs_changeColsIntegralityByRange m a b xs)) = obj_offset m"
  "obj_sense (snd (Highs_changeColsIntegralityByRange m a b xs)) = obj_sense m"
  by (simp_all add: Highs_changeColsIntegralityByRange_def)

lemma relax_eq:
  "relax self =
     (None, self\<lparr>s_model := (s_model self)\<lparr>cols :=
        map (\<lambda>c. c\<lparr>col_integrality := kHighsVarTypeContinuous\<rparr>) (cols (s_model self))\<rparr>\<rparr>)"
proof -
  let ?m = "snd (Highs_changeColsIntegralityByRange (s_model self) 0
                   (int (length (cols (s_model self))) - 1)
                   (replicate (length (cols (s_model self))) kHighsVarTypeContinuous))"
  have "?m = (s_model self)\<lparr>cols :=
        map (\<lambda>c. c\<lparr>col_integrality := kHighsVarTypeContinuous\<rparr>) (cols (s_model self))\<rparr>"
    by (rule highs.equality) (simp_all add: by_range_all by_range_rest)
  then show ?thesis
    by (simp add: relax_def Let_def num_cols_def Highs_getNumCol_def)
qed

text \<open>
  C4. For every adapter, \<^verbatim>\<open>relax\<close> returns normally, every column of the native model
  has continuous kind afterwards, and a second \<^verbatim>\<open>relax\<close> leaves the adapter exactly
  as the first one left it.
\<close>

theorem relax_continuous_idempotent:
  "fst (relax self) = None
   \<and> map col_integrality (cols (s_model (snd (relax self))))
       = replicate (length (cols (s_model self))) kHighsVarTypeContinuous
   \<and> snd (relax (snd (relax self))) = snd (relax self)"
  by (simp add: relax_eq comp_def map_replicate_const)

theorem relax_continuous_idempotent_witness:
  "map col_integrality (cols (s_model example_adapter)) = [0, 1, 0]
   \<and> fst (relax example_adapter) = None
   \<and> map col_integrality (cols (s_model (snd (relax example_adapter)))) = [0, 0, 0]
   \<and> snd (relax (snd (relax example_adapter))) = snd (relax example_adapter)"
proof -
  have b: "map col_integrality (cols (s_model example_adapter)) = [0, 1, 0]"
    by (simp add: example_adapter_model)
  have r: "replicate (length (cols (s_model example_adapter))) kHighsVarTypeContinuous = [0, 0, 0]"
    by (simp add: example_adapter_model kHighsVarTypeContinuous_def)
  from relax_continuous_idempotent [of example_adapter] b show ?thesis
    unfolding r by simp
qed

subsection \<open>Setting the objective\<close>

lemma set_coefficients_length [simp]:
  "length (cols (snd (set_coefficients m xs))) = length (cols m)"
  by (induction m xs rule: set_coefficients.induct) (simp_all split: sum.splits)

lemma changeColCost_cost:
  "j < length (cols m) \<Longrightarrow>
   col_cost (cols (snd (Highs_changeColCost m c x)) ! j)
     = (if c = int j then x else col_cost (cols m ! j))"
  by (auto simp add: Highs_changeColCost_def Highs_getNumCol_def nth_list_update)

lemma to_c_int_Inr: "to_c_int i = Inr c \<Longrightarrow> c = i"
  by (simp add: to_c_int_def split: if_splits)

lemma set_coefficients_untouched:
  "j < length (cols m) \<Longrightarrow> int j \<notin> idx ` fst ` set xs \<Longrightarrow>
   col_cost (cols (snd (set_coefficients m xs)) ! j) = col_cost (cols m ! j)"
proof (induction m xs rule: set_coefficients.induct)
  case (1 m)
  then show ?case by simp
next
  case (2 m var coef items)
  then show ?case
    by (auto simp add: changeColCost_cost split: sum.splits dest: to_c_int_Inr)
qed

lemma set_objective_model:
  "cols (s_model (snd (set_objective self e s)))
     = cols (snd (set_coefficients (s_model self) (expr e)))"
  by (cases "set_coefficients (s_model self) (expr e)")
     (simp add: set_objective_def set_objective_const_def set_objective_sense_def
        Highs_changeObjectiveOffset_def Highs_changeObjectiveSense_def
        split: option.splits sum.splits)

text \<open>
  C10. \<^verbatim>\<open>set_objective\<close> keeps the number of columns, and the cost of every column
  whose index is not the index of a variable in the expression's dictionary is the
  cost it had before the call.
\<close>

theorem set_objective_frame:
  assumes "j < length (cols (s_model self))"
    and "int j \<notin> idx ` fst ` set (expr e)"
  shows "length (cols (s_model (snd (set_objective self e s)))) = length (cols (s_model self))
       \<and> col_cost (cols (s_model (snd (set_objective self e s))) ! j)
           = col_cost (cols (s_model self) ! j)"
  using assms by (simp add: set_objective_model set_coefficients_untouched)

theorem set_objective_frame_witness:
  "(0::nat) < length (cols (s_model example_adapter))
   \<and> int 0 \<notin> idx ` fst ` set (expr \<lparr>expr = [(Var 1, PyInt 5)], const = PyInt 0, sense = MINIMIZE\<rparr>)
   \<and> col_cost (cols (s_model example_adapter) ! 0) = Fin 2
   \<and> length (cols (s_model (snd (set_objective example_adapter
        \<lparr>expr = [(Var 1, PyInt 5)], const = PyInt 0, sense = MINIMIZE\<rparr> [])))) = 3
   \<and> col_cost (cols (s_model (snd (set_objective example_adapter
        \<lparr>expr = [(Var 1, PyInt 5)], const = PyInt 0, sense = MINIMIZE\<rparr> []))) ! 0) = Fin 2"
proof -
  have j: "(0::nat) < length (cols (s_model example_adapter))"
    by (simp add: example_adapter_cols)
  have n: "int 0 \<notin> idx ` fst ` set (expr \<lparr>expr = [(Var 1, PyInt 5)], const = PyInt 0, sense = MINIMIZE\<rparr>)"
    by simp
  have c: "col_cost (cols (s_model example_adapter) ! 0) = Fin 2"
    by (simp add: example_adapter_model)
  from set_objective_frame [OF j n, of "[]"] j n c show ?thesis
    by (simp add: example_adapter_cols)
qed

subsection \<open>Objective round trip\<close>

lemma upt1: "[0..<1] = [0]"
  by (simp add: upt_rec)

text \<open>
  C3 fails on the code. \<^verbatim>\<open>set_objective\<close> overwrites the constant, the sense and the
  cost of each column the expression names, and never resets the other columns, which
  \<^verbatim>\<open>get_objective\<close> reads as well. After \<^verbatim>\<open>add_var\<close> with cost 2, setting an
  objective without terms and reading it back returns the term \<open>2 * x0\<close>.
\<close>

theorem stale_cost_read_back:
  "SolverHighs_init example_env ''m'' MINIMIZE = Inr fresh_adapter
   \<and> fst (add_var fresh_adapter (PyInt 2) (PyInt 0) mip_INF CONTINUOUS ''x0'') = None
   \<and> expr empty_objective = []
   \<and> fst (set_objective
            (snd (add_var fresh_adapter (PyInt 2) (PyInt 0) mip_INF CONTINUOUS ''x0''))
            empty_objective []) = None
   \<and> get_objective
        (snd (set_objective
                (snd (add_var fresh_adapter (PyInt 2) (PyInt 0) mip_INF CONTINUOUS ''x0''))
                empty_objective []))
        (front_vars 1)
       = Inr \<lparr>expr = [(Var 0, PyFloat (Fin 2))], const = PyFloat (Fin 0), sense = MINIMIZE\<rparr>"
proof -
  let ?a = "snd (add_var fresh_adapter (PyInt 2) (PyInt 0) mip_INF CONTINUOUS ''x0'')"
  have first: "add_var_succeeds fresh_adapter (PyInt 2) (PyInt 0) mip_INF"
    by (simp add: example_lib_accepts_var [where x = 0] mip_INF_def)
  have m: "s_model ?a =
      \<lparr>cols = [\<lparr>col_lower = Fin 0, col_upper = PosInf, col_cost = Fin 2, col_integrality = 0\<rparr>],
       rows = [], obj_offset = Fin 0, obj_sense = 1\<rparr>"
    by (simp add: fresh_adapter_def add_var_def Let_def num_cols_def Highs_getNumCol_def
        Highs_addVar_def Highs_changeColCost_def Highs_create_def kHighsVarTypeContinuous_def
        kHighsObjSenseMinimize_def mip_INF_def example_lib_def)
  have s: "set_objective ?a empty_objective [] = (None, ?a)"
    by (rule prod_eqI)
       (simp_all add: set_objective_def empty_objective_def set_objective_const_def
          set_objective_sense_def sense_map_set_def MINIMIZE_def MAXIMIZE_def
          Highs_changeObjectiveOffset_def Highs_changeObjectiveSense_def m
          kHighsObjSenseMinimize_def kHighsObjSenseMaximize_def)
  have g: "get_objective ?a (front_vars 1)
      = Inr \<lparr>expr = [(Var 0, PyFloat (Fin 2))], const = PyFloat (Fin 0), sense = MINIMIZE\<rparr>"
    by (simp add: get_objective_def Let_def num_cols_def Highs_getNumCol_def m
        Highs_getColsByRange_def upt1 front_vars_def xsum_def add_const_def
        get_objective_const_def Highs_getObjectiveOffset_def get_objective_sense_def
        Highs_getObjectiveSense_def sense_map_get_def kHighsObjSenseMinimize_def
        kHighsObjSenseMaximize_def)
  from init_example add_var_fields(1) [OF first] s g show ?thesis
    by (simp add: empty_objective_def)
qed

end
